theory Spec2Isabelle
  imports Main "HOL-Library.Word"
begin

unbundle bit_operations_syntax

section \<open>Strings\<close>

text \<open>
  A JavaScript string is modelled by \<^typ>\<open>string\<close>: one \<^typ>\<open>char\<close> per UTF-16 code
  unit, for the code units U+0000 to U+00FF (Latin-1). Text with code units beyond that
  range is outside the model.

  \<open>is_space\<close> is the class \<open>\s\<close> of a regular expression and the set that
  \<open>String.prototype.trim\<close> strips (WhiteSpace and LineTerminator), cut to Latin-1:
  tab, line feed, vertical tab, form feed, carriage return, space and no-break space.
\<close>

definition is_space :: "char \<Rightarrow> bool" where
  "is_space c = (of_char c \<in> {9, 10, 11, 12, 13, 32, 160 :: nat})"

definition trim :: "string \<Rightarrow> string" where
  "trim s = rev (dropWhile is_space (rev (dropWhile is_space s)))"

text \<open>
  \<open>toLowerCase\<close> on Latin-1: the letters A to Z and U+00C0 to U+00DE (without the
  multiplication sign U+00D7) move up by 32.
\<close>

definition lower_char :: "char \<Rightarrow> char" where
  "lower_char c = (let n = (of_char c :: nat) in
     if (65 \<le> n \<and> n \<le> 90) \<or> (192 \<le> n \<and> n \<le> 222 \<and> n \<noteq> 215)
     then char_of (n + 32) else c)"

definition toLowerCase :: "string \<Rightarrow> string" where
  "toLowerCase s = map lower_char s"

text \<open>
  \<open>toUpperCase\<close> is only ever applied to the name of an HTTP method, so the model
  covers the letters a to z.
\<close>

definition upper_char :: "char \<Rightarrow> char" where
  "upper_char c = (let n = (of_char c :: nat) in
     if 97 \<le> n \<and> n \<le> 122 then char_of (n - 32) else c)"

definition toUpperCase :: "string \<Rightarrow> string" where
  "toUpperCase s = map upper_char s"

definition startsWith :: "string \<Rightarrow> string \<Rightarrow> bool" where
  "startsWith s p = (take (length p) s = p)"

text \<open>Decimal text of a number, as a template literal prints an integer.\<close>

fun show_nat :: "nat \<Rightarrow> string" where
  "show_nat n = (if n < 10 then [char_of (48 + n)]
     else show_nat (n div 10) @ [char_of (48 + n mod 10)])"

declare show_nat.simps [simp del]

definition show_number :: "int \<Rightarrow> string" where
  "show_number i = (if i < 0 then CHR ''-'' # show_nat (nat (- i)) else show_nat (nat i))"

section \<open>The regular expressions of the handler-string conversion\<close>

text \<open>
  The three patterns of \<open>htmx.ts\<close>, lines 213 to 215, are flat sequences of
  literal characters, optional characters (\<open>\(?\<close>) and greedy starred character classes
  (\<open>\s*\<close>, \<open>[^)]*\<close>). \<open>match_seq\<close> is a backtracking matcher for such a sequence
  at the start of the text: a greedy atom first takes the character, and gives it back
  when the rest of the pattern fails. It returns the text after the match.
\<close>

datatype atom = Lit char | Opt char | Star "char \<Rightarrow> bool"

fun match_seq :: "atom list \<Rightarrow> string \<Rightarrow> string option" where
  "match_seq [] s = Some s"
| "match_seq (Lit c # r) [] = None"
| "match_seq (Lit c # r) (x # xs) = (if x = c then match_seq r xs else None)"
| "match_seq (Opt c # r) [] = match_seq r []"
| "match_seq (Opt c # r) (x # xs) =
     (if x = c
      then (case match_seq r xs of Some rest \<Rightarrow> Some rest | None \<Rightarrow> match_seq r (x # xs))
      else match_seq r (x # xs))"
| "match_seq (Star p # r) [] = match_seq r []"
| "match_seq (Star p # r) (x # xs) =
     (if p x
      then (case match_seq (Star p # r) xs of
              Some rest \<Rightarrow> Some rest
            | None \<Rightarrow> match_seq r (x # xs))
      else match_seq r (x # xs))"

text \<open>
  \<open>s.replace(/^.../, "")\<close> without the \<open>g\<close> and \<open>m\<close> flags: the pattern starts
  with \<open>^\<close>, so it can only match at index 0; the match is removed, and a text that
  does not match is returned as it is.
\<close>

definition replace_anchored :: "atom list \<Rightarrow> string \<Rightarrow> string" where
  "replace_anchored re s = (case match_seq re s of Some rest \<Rightarrow> rest | None \<Rightarrow> s)"

text \<open>\<^verbatim>\<open>/^function\s*\([^)]*\)\s*{/\<close>\<close>

definition function_wrapper :: "atom list" where
  "function_wrapper = map Lit ''function'' @
     [Star is_space, Lit CHR ''('', Star (\<lambda>c. c \<noteq> CHR '')''), Lit CHR '')'',
      Star is_space, Lit CHR ''{'']"

text \<open>\<^verbatim>\<open>/^\(?[^)]*\)?\s*=>\s*{/\<close>\<close>

definition arrow_wrapper :: "atom list" where
  "arrow_wrapper =
     [Opt CHR ''('', Star (\<lambda>c. c \<noteq> CHR '')''), Opt CHR '')'', Star is_space,
      Lit CHR ''='', Lit CHR ''>'', Star is_space, Lit CHR ''{'']"

text \<open>\<^verbatim>\<open>.replace(/}$/, "")\<close>: a closing brace that is the last character is removed.\<close>

definition replace_closing_brace :: "string \<Rightarrow> string" where
  "replace_closing_brace s = (if s \<noteq> [] \<and> last s = CHR ''}'' then butlast s else s)"

text \<open>Lines 211 to 216: the attribute value made from an event handler's source text.\<close>

definition handlerString :: "string \<Rightarrow> string" where
  "handlerString src =
     trim (replace_closing_brace
       (replace_anchored arrow_wrapper (replace_anchored function_wrapper src)))"

text \<open>Lines 39 to 48.\<close>

definition convertToHXAttribute :: "string \<Rightarrow> string" where
  "convertToHXAttribute key =
     (if key = ''onBeforeRequest'' then ''hx-on::before-request''
      else if key = ''onAfterRequest'' then ''hx-on::after-request''
      else ''hx-on:'' @ drop 2 (toLowerCase key))"

section \<open>SHA-1\<close>

text \<open>
  \<open>createHash("sha1").update(text).digest("hex")\<close> of Node's \<open>crypto\<close> module: the
  SHA-1 function of FIPS 180-4 over the UTF-8 encoding of the text, printed as 40
  lower-case hexadecimal digits.
\<close>

type_synonym u8 = "8 word"
type_synonym u32 = "32 word"

definition utf8_char :: "char \<Rightarrow> u8 list" where
  "utf8_char c = (let n = (of_char c :: u8) in
     if n < 128 then [n] else [192 OR drop_bit 6 n, 128 OR (n AND 63)])"

definition utf8 :: "string \<Rightarrow> u8 list" where
  "utf8 s = concat (map utf8_char s)"

fun zeros :: "nat \<Rightarrow> u8 list" where
  "zeros n = (if n = 0 then [] else 0 # zeros (n - 1))"

declare zeros.simps [simp del]

definition be64 :: "64 word \<Rightarrow> u8 list" where
  "be64 n = [ucast (drop_bit 56 n), ucast (drop_bit 48 n), ucast (drop_bit 40 n),
     ucast (drop_bit 32 n), ucast (drop_bit 24 n), ucast (drop_bit 16 n),
     ucast (drop_bit 8 n), ucast n]"

text \<open>
  Padding: the byte 0x80, zero bytes up to 56 modulo 64, and the length of the message
  in bits as a 64-bit big-endian number.
\<close>

definition sha1_pad :: "u8 list \<Rightarrow> u8 list" where
  "sha1_pad m = m @ [128] @ zeros ((64 - (length m + 9) mod 64) mod 64)
     @ be64 (8 * word_of_nat (length m))"

fun be_words :: "u8 list \<Rightarrow> u32 list" where
  "be_words (a # b # c # d # r) =
     (push_bit 24 (ucast a) OR push_bit 16 (ucast b) OR push_bit 8 (ucast c) OR ucast d)
       # be_words r"
| "be_words _ = []"

fun chunks :: "u32 list \<Rightarrow> u32 list list" where
  "chunks [] = []"
| "chunks (x # xs) = take 16 (x # xs) # chunks (drop 16 (x # xs))"

definition rotl :: "nat \<Rightarrow> u32 \<Rightarrow> u32" where
  "rotl n x = push_bit n x OR drop_bit (32 - n) x"

text \<open>The message schedule: the 16 words of a block extended to 80.\<close>

function schedule :: "nat \<Rightarrow> u32 list \<Rightarrow> u32 list" where
  "schedule i w = (if i < 80
     then schedule (Suc i)
       (w @ [rotl 1 (w ! (i - 3) XOR w ! (i - 8) XOR w ! (i - 14) XOR w ! (i - 16))])
     else w)"
  by pat_completeness auto
termination
  by (relation "measure (\<lambda>(i, w). 80 - i)") auto

declare schedule.simps [simp del]

type_synonym sha1_state = "u32 \<times> u32 \<times> u32 \<times> u32 \<times> u32"

definition sha1_f :: "nat \<Rightarrow> u32 \<Rightarrow> u32 \<Rightarrow> u32 \<Rightarrow> u32" where
  "sha1_f i b c d =
     (if i < 20 then (b AND c) OR (NOT b AND d)
      else if i < 40 then b XOR c XOR d
      else if i < 60 then (b AND c) OR (b AND d) OR (c AND d)
      else b XOR c XOR d)"

definition sha1_k :: "nat \<Rightarrow> u32" where
  "sha1_k i =
     (if i < 20 then 0x5A827999 else if i < 40 then 0x6ED9EBA1
      else if i < 60 then 0x8F1BBCDC else 0xCA62C1D6)"

fun rounds :: "nat \<Rightarrow> u32 list \<Rightarrow> sha1_state \<Rightarrow> sha1_state" where
  "rounds i [] st = st"
| "rounds i (w # ws) (a, b, c, d, e) =
     rounds (Suc i) ws
       (rotl 5 a + sha1_f i b c d + e + sha1_k i + w, a, rotl 30 b, c, d)"

definition compress :: "sha1_state \<Rightarrow> u32 list \<Rightarrow> sha1_state" where
  "compress h blk = (case h of (h0, h1, h2, h3, h4) \<Rightarrow>
     (case rounds 0 (schedule 16 blk) h of (a, b, c, d, e) \<Rightarrow>
        (h0 + a, h1 + b, h2 + c, h3 + d, h4 + e)))"

definition sha1_init :: sha1_state where
  "sha1_init = (0x67452301, 0xEFCDAB89, 0x98BADCFE, 0x10325476, 0xC3D2E1F0)"

definition hex_digit :: "u32 \<Rightarrow> char" where
  "hex_digit n = ''0123456789abcdef'' ! unat n"

definition hex32 :: "u32 \<Rightarrow> string" where
  "hex32 w = map (\<lambda>n. hex_digit (drop_bit n w AND 15)) [28, 24, 20, 16, 12, 8, 4, 0]"

definition sha1_hex :: "string \<Rightarrow> string" where
  "sha1_hex s =
     (case foldl compress sha1_init (chunks (be_words (sha1_pad (utf8 s)))) of
        (h0, h1, h2, h3, h4) \<Rightarrow> hex32 h0 @ hex32 h1 @ hex32 h2 @ hex32 h3 @ hex32 h4)"

section \<open>Values, requests and replies\<close>

text \<open>
  A plain object is a map from its own property names to values. \<open>JUndefined\<close> is the
  value \<open>undefined\<close>, which \<open>JSON.stringify(undefined)\<close> returns and which a property
  can hold.
\<close>

datatype jsval = JUndefined | JNull | JBool bool | JNum int | JStr string

type_synonym jsobject = "string \<rightharpoonup> jsval"

text \<open>\<open>a ?? b\<close>: \<open>None\<close> stands for \<open>undefined\<close> and \<open>null\<close>.\<close>

definition nullish :: "'a option \<Rightarrow> 'a \<Rightarrow> 'a" where
  "nullish a b = (case a of None \<Rightarrow> b | Some v \<Rightarrow> v)"

text \<open>\<open>Object.fromEntries\<close>: the entries are assigned in order, so the last one of a key stays.\<close>

definition fromEntries :: "(string \<times> 'v) list \<Rightarrow> (string \<rightharpoonup> 'v)" where
  "fromEntries es = foldl (\<lambda>m (k, v). m(k \<mapsto> v)) Map.empty es"

datatype exn = Error string

datatype jsx = Element string "jsx list" | TextNode string

text \<open>
  The reply of the HTTP server, with the three calls the module makes on it:
  \<open>res.header(k, v)\<close>, \<open>res.status(n)\<close> and \<open>res.send(text)\<close>.
\<close>

record reply =
  status :: nat
  headers :: "(string \<times> string) list"
  payload :: "string option"

definition new_reply :: reply where
  "new_reply = \<lparr>status = 200, headers = [], payload = None\<rparr>"

definition header :: "string \<Rightarrow> string \<Rightarrow> reply \<Rightarrow> reply" where
  "header k v r = r\<lparr>headers := headers r @ [(k, v)]\<rparr>"

definition set_status :: "nat \<Rightarrow> reply \<Rightarrow> reply" where
  "set_status n r = r\<lparr>status := n\<rparr>"

definition send :: "string \<Rightarrow> reply \<Rightarrow> reply" where
  "send text r = r\<lparr>payload := Some text\<rparr>"

record request =
  body :: "jsobject option"

record handler_args =
  data :: jsobject
  req :: request
  res :: reply

text \<open>
  A route handler is a function value: its source text (what \<open>toString()\<close> returns) and
  what a call does, returning an element or throwing (a rejected promise is a throw at
  the \<open>await\<close>).
\<close>

record route_handler =
  toString :: string
  call :: "handler_args \<Rightarrow> exn + jsx"

datatype http_method = GET | POST | PUT | DELETE | PATCH

fun method_name :: "http_method \<Rightarrow> string" where
  "method_name GET = ''GET''"
| "method_name POST = ''POST''"
| "method_name PUT = ''PUT''"
| "method_name DELETE = ''DELETE''"
| "method_name PATCH = ''PATCH''"

datatype swap_strategy =
  InnerHTML | OuterHTML | Beforebegin | Afterbegin | Beforeend | Afterend | Delete

fun swap_name :: "swap_strategy \<Rightarrow> string" where
  "swap_name InnerHTML = ''innerHTML''"
| "swap_name OuterHTML = ''outerHTML''"
| "swap_name Beforebegin = ''beforebegin''"
| "swap_name Afterbegin = ''afterbegin''"
| "swap_name Beforeend = ''beforeend''"
| "swap_name Afterend = ''afterend''"
| "swap_name Delete = ''delete''"

text \<open>
  \<open>HTMXRouteOptions\<close>. The six named properties are fields (\<open>method_opt\<close> is the
  property \<open>method\<close>); \<open>props\<close> lists the other
  own properties of the object in key order, which are the event handlers of
  \<open>OnHandlers\<close>: the key, and the source text of the function it holds (\<open>None\<close> for a
  key that holds \<open>undefined\<close>). An event handler runs in the browser, so only its
  source text matters here.
\<close>

record htmx_route_options =
  handler :: route_handler
  method_opt :: "http_method option"
  target :: "string option"
  swap :: "swap_strategy option"
  vals :: "jsobject option"
  routeOptions :: "jsobject option"
  props :: "(string \<times> string option) list"

text \<open>
  \<open>HTMXRouterConfig\<close>. The Fastify instance (\<open>app\<close>, \<open>fastifyOptions\<close>) is not a
  field: the model records the calls the module makes on it.
\<close>

record htmx_router_config =
  prefix :: "string option"
  useFormbody :: "bool option"
  entryPoint :: "jsx option"
  rootPath :: "string option"
  port :: "int option"
  host :: "string option"
  debug :: "bool option"

text \<open>
  What the module calls and does not define: React's \<open>renderToStaticMarkup\<close>, which
  can throw; \<open>JSON.stringify\<close> on an object; and \<open>app.listen\<close>, whose promise is
  rejected with an error (\<open>Some\<close>) or fulfilled (\<open>None\<close>).
\<close>

record env =
  renderToStaticMarkup :: "jsx \<Rightarrow> exn + string"
  JSON_stringify :: "jsobject \<Rightarrow> string"
  listen :: "int \<Rightarrow> string \<Rightarrow> exn option"

section \<open>The console\<close>

datatype console_arg =
  Txt string | Thrown exn | Val "jsobject option" | Count nat | Keys "string list"
  | RouteOpts string string "jsobject option"

datatype console_line = Console_log "console_arg list" | Console_error "console_arg list"

text \<open>Lines 127 to 135.\<close>

definition log :: "bool \<Rightarrow> console_arg list \<Rightarrow> console_line list" where
  "log dbg args = (if dbg then [Console_log (Txt ''[HTMX]'' # args)] else [])"

definition logError :: "console_arg list \<Rightarrow> console_line list" where
  "logError args = [Console_error (Txt ''[HTMX]'' # args)]"

section \<open>The router\<close>

text \<open>
  The definitions follow \<open>src/htmx.ts\<close>, and the line numbers are those of that file.
  The earlier copy of the module that the repository also holds has the same router
  function without the \<open>debug\<close> switch; it differs in the texts it writes to the
  console and in how it computes the name of the trigger attribute (see
  \<open>trigger_attribute\<close> below).

  The calls on the Fastify instance (\<open>register\<close>, \<open>get\<close>, \<open>route\<close>), on the
  reply and on the console are taken to return normally. A route handler is given the
  reply, but what it does to it is not part of its result here.
\<close>

text \<open>
  A route as \<open>app.route\<close> receives it. The handler takes the request and the reply and
  returns the reply it has sent and the lines it has written to the console, or an
  exception that escapes it. \<open>FastifyHttpOptions\<close> has no \<open>method\<close>, \<open>url\<close> or
  \<open>handler\<close> property, so the spread of \<open>routeOptions\<close> is kept in a field of its own.
\<close>

record route =
  route_method :: string
  route_url :: string
  route_options :: jsobject
  route_handler_fn :: "request \<Rightarrow> reply \<Rightarrow> exn + reply \<times> console_line list"

text \<open>
  The state a router closes over: the registry (a \<open>Map\<close>, in insertion order), the routes
  passed to \<open>app.route\<close>, the paths passed to \<open>app.get\<close>, the plugins passed to
  \<open>app.register\<close>, the console, the address the server listens on, and the exit code of
  the process once \<open>process.exit\<close> was called.
\<close>

record router_state =
  routeRegistry :: "(string \<times> route_handler) list"
  routes :: "route list"
  mounts :: "string list"
  plugins :: "string list"
  console :: "console_line list"
  listening :: "(int \<times> string) option"
  exit_code :: "int option"

definition registry_has :: "(string \<times> 'v) list \<Rightarrow> string \<Rightarrow> bool" where
  "registry_has reg k = (k \<in> set (map fst reg))"

fun registry_set :: "(string \<times> 'v) list \<Rightarrow> string \<Rightarrow> 'v \<Rightarrow> (string \<times> 'v) list" where
  "registry_set [] k v = [(k, v)]"
| "registry_set (p # ps) k v = (if fst p = k then (k, v) # ps else p # registry_set ps k v)"

text \<open>Lines 115 to 120.\<close>

definition hashFn :: "route_handler \<Rightarrow> string" where
  "hashFn fn = take 10 (sha1_hex (toString fn))"

text \<open>
  Lines 122 to 154. The handler of the entry point (the static shell around the rendered
  entry element) is not modelled; its path is recorded.
\<close>

definition createHTMXRouter :: "htmx_router_config \<Rightarrow> router_state" where
  "createHTMXRouter config =
     (let pfx = nullish (prefix config) ''/api'';
          dbg = nullish (debug config) False;
          formbody = nullish (useFormbody config) True;
          mount = nullish (rootPath config) ''/''
      in \<lparr>routeRegistry = [],
          routes = [],
          mounts = (case entryPoint config of None \<Rightarrow> [] | Some e \<Rightarrow> [mount]),
          plugins = (if formbody then [''formbody''] else []),
          console =
            log dbg [Txt ''Initializing router with prefix:'', Txt pfx]
            @ (if formbody then log dbg [Txt ''Registered formbody plugin''] else [])
            @ (case entryPoint config of
                 None \<Rightarrow> []
               | Some e \<Rightarrow> log dbg [Txt ''Setting up entry point at:'', Txt mount]),
          listening = None,
          exit_code = None\<rparr>)"

text \<open>Lines 159 to 161.\<close>

definition route_method_of :: "htmx_route_options \<Rightarrow> string" where
  "route_method_of opts =
     (case method_opt opts of None \<Rightarrow> ''POST'' | Some m \<Rightarrow> toUpperCase (method_name m))"

definition route_path :: "htmx_router_config \<Rightarrow> htmx_route_options \<Rightarrow> string" where
  "route_path config opts = nullish (prefix config) ''/api'' @ ''/'' @ hashFn (handler opts)"

text \<open>Lines 182 to 185: \<open>{ ...(opts.vals ?? {}), ...(req.body ?? {}) }\<close>.\<close>

definition merged_data :: "htmx_route_options \<Rightarrow> request \<Rightarrow> jsobject" where
  "merged_data opts rq = nullish (vals opts) Map.empty ++ nullish (body rq) Map.empty"

text \<open>Lines 181 to 192, the body of \<open>try\<close>: \<open>Inl\<close> is the exception that leaves it.\<close>

definition try_block ::
  "env \<Rightarrow> bool \<Rightarrow> htmx_route_options \<Rightarrow> request \<Rightarrow> reply \<Rightarrow> exn + reply \<times> console_line list"
where
  "try_block ev dbg opts rq rs =
     (let d = merged_data opts rq in
      case call (handler opts) \<lparr>data = d, req = rq, res = rs\<rparr> of
        Inl e \<Rightarrow> Inl e
      | Inr jsx \<Rightarrow>
          (case renderToStaticMarkup ev jsx of
             Inl e \<Rightarrow> Inl e
           | Inr html \<Rightarrow>
               Inr (send html (header ''Content-Type'' ''text/html'' rs),
                    log dbg [Txt ''Generated HTML response length:'', Count (length html)])))"

text \<open>Lines 177 to 197, the handler of a generated route.\<close>

definition request_handler ::
  "env \<Rightarrow> bool \<Rightarrow> htmx_route_options \<Rightarrow> string \<Rightarrow> string
     \<Rightarrow> request \<Rightarrow> reply \<Rightarrow> exn + reply \<times> console_line list"
where
  "request_handler ev dbg opts meth path rq rs =
     (let before =
            log dbg [Txt (''Handling request: '' @ meth @ '' '' @ path)]
            @ log dbg [Txt ''Request body:'', Val (body rq)]
      in case try_block ev dbg opts rq rs of
           Inr (rs', out) \<Rightarrow> Inr (rs', before @ out)
         | Inl e \<Rightarrow>
             Inr (send ''Server error'' (set_status 500 rs),
                  before @ logError [Txt ''Handler error:'', Thrown e]))"

text \<open>Lines 201 to 233.\<close>

definition hxOnHandlers :: "htmx_route_options \<Rightarrow> (string \<times> string) list" where
  "hxOnHandlers opts =
     concat (map
       (\<lambda>key. case map_of (props opts) key of
                 Some (Some fn) \<Rightarrow> [(convertToHXAttribute key, handlerString fn)]
               | _ \<Rightarrow> [])
       (filter (\<lambda>key. startsWith key ''on'') (map fst (props opts))))"

definition hxAttributes ::
  "env \<Rightarrow> htmx_route_options \<Rightarrow> string \<Rightarrow> string \<Rightarrow> jsobject"
where
  "hxAttributes ev opts meth path =
     (let hxAttr = ''hx-'' @ toLowerCase meth
      in fromEntries
           [(hxAttr, JStr path),
            (''hx-target'', JStr (nullish (target opts) ''body'')),
            (''hx-swap'', JStr (nullish (map_option swap_name (swap opts)) ''innerHTML'')),
            (''hx-vals'',
               (case vals opts of None \<Rightarrow> JUndefined | Some v \<Rightarrow> JStr (JSON_stringify ev v)))]
         ++ fromEntries (map (\<lambda>(k, v). (k, JStr v)) (hxOnHandlers opts)))"

text \<open>Lines 173 to 198: the route passed to \<open>app.route\<close>.\<close>

definition generated_route :: "env \<Rightarrow> htmx_router_config \<Rightarrow> htmx_route_options \<Rightarrow> route" where
  "generated_route ev config opts =
     \<lparr>route_method = route_method_of opts,
      route_url = route_path config opts,
      route_options = nullish (routeOptions opts) Map.empty,
      route_handler_fn =
        request_handler ev (nullish (debug config) False) opts
          (route_method_of opts) (route_path config opts)\<rparr>"

text \<open>Lines 156 to 234, the router function.\<close>

definition htmx ::
  "env \<Rightarrow> htmx_router_config \<Rightarrow> htmx_route_options \<Rightarrow> router_state
     \<Rightarrow> jsobject \<times> router_state"
where
  "htmx ev config opts s =
     (let dbg = nullish (debug config) False;
          meth = route_method_of opts;
          path = route_path config opts;
          s' =
            (if \<not> registry_has (routeRegistry s) path
             then s\<lparr>console := console s
                      @ log dbg [Txt (''Registering new route: '' @ meth @ '' '' @ path)]
                      @ log dbg [Txt ''Route options:'',
                           RouteOpts (nullish (target opts) ''body'')
                             (nullish (map_option swap_name (swap opts)) ''innerHTML'')
                             (vals opts)],
                    routeRegistry := registry_set (routeRegistry s) path (handler opts),
                    routes := routes s @ [generated_route ev config opts]\<rparr>
             else s)
      in (hxAttributes ev opts meth path, s'))"

text \<open>
  The name of the trigger attribute for each value of the \<open>method\<close> option. The earlier
  copy of the module (lines 242 to 259 there) computes \<open>hxAttr\<close> by this table, and
  \<open>htmx.ts\<close> by \<open>"hx-" + method.toLowerCase()\<close>.
\<close>

definition trigger_attribute :: "http_method option \<Rightarrow> string" where
  "trigger_attribute m =
     (case m of
        None \<Rightarrow> ''hx-post''
      | Some GET \<Rightarrow> ''hx-get''
      | Some POST \<Rightarrow> ''hx-post''
      | Some PUT \<Rightarrow> ''hx-put''
      | Some DELETE \<Rightarrow> ''hx-delete''
      | Some PATCH \<Rightarrow> ''hx-patch'')"

text \<open>Lines 236 to 248.\<close>

definition start :: "env \<Rightarrow> htmx_router_config \<Rightarrow> router_state \<Rightarrow> router_state" where
  "start ev config s =
     (let dbg = nullish (debug config) False;
          prt = nullish (port config) 3000;
          hst = nullish (host config) ''localhost''
      in case listen ev prt hst of
           None \<Rightarrow>
             s\<lparr>listening := Some (prt, hst),
               console := console s
                 @ [Console_log
                      [Txt (''[HTMX] Server listening on http://'' @ hst @ '':''
                            @ show_number prt)]]
                 @ log dbg [Txt ''Debug mode enabled'']
                 @ log dbg [Txt ''Registered routes:'', Keys (map fst (routeRegistry s))]\<rparr>
         | Some err \<Rightarrow>
             s\<lparr>console := console s @ logError [Txt ''Error starting server:'', Thrown err],
               exit_code := Some 1\<rparr>)"

text \<open>A router after a sequence of calls of the router function.\<close>

fun htmx_calls ::
  "env \<Rightarrow> htmx_router_config \<Rightarrow> htmx_route_options list \<Rightarrow> router_state \<Rightarrow> router_state"
where
  "htmx_calls ev config [] s = s"
| "htmx_calls ev config (opts # rest) s = htmx_calls ev config rest (snd (htmx ev config opts s))"

text \<open>
  The registry and the routes of the server go together: the keys of the registry are the
  paths of the routes, in the same order, and no path occurs twice.
\<close>

definition in_step :: "router_state \<Rightarrow> bool" where
  "in_step s = (map fst (routeRegistry s) = map route_url (routes s)
     \<and> distinct (map route_url (routes s)))"

section \<open>Example values\<close>

text \<open>Concrete inputs at which the theorems below are instantiated.\<close>

definition hello :: jsx where
  "hello = Element ''p'' [TextNode ''hi'']"

definition example_env :: env where
  "example_env =
     \<lparr>renderToStaticMarkup =
        (\<lambda>j. if j = hello then Inr ''<p>hi</p>'' else Inl (Error ''invalid element'')),
      JSON_stringify = (\<lambda>v. ''{}''),
      listen = (\<lambda>p h. if p = 80 then Some (Error ''EACCES'') else None)\<rparr>"

definition example_config :: htmx_router_config where
  "example_config =
     \<lparr>prefix = None, useFormbody = None, entryPoint = None, rootPath = None,
      port = None, host = None, debug = None\<rparr>"

definition example_handler :: "string \<Rightarrow> route_handler" where
  "example_handler src = \<lparr>toString = src, call = (\<lambda>args. Inr hello)\<rparr>"

definition failing_handler :: route_handler where
  "failing_handler =
     \<lparr>toString = ''() => { throw new Error(1) }'',
      call = (\<lambda>args. Inl (Error ''1''))\<rparr>"

definition example_opts :: "route_handler \<Rightarrow> http_method option \<Rightarrow> htmx_route_options" where
  "example_opts h m =
     \<lparr>handler = h, method_opt = m, target = None, swap = None, vals = None,
      routeOptions = None, props = []\<rparr>"

definition example_request :: request where
  "example_request = \<lparr>body = Some [''name'' \<mapsto> JStr ''Ann'']\<rparr>"

text \<open>
  A handler that tells what it is called with: it returns the element only on a record
  whose \<open>data\<close> has the name of the request and the role of the default values.
\<close>

definition probe_handler :: route_handler where
  "probe_handler =
     \<lparr>toString = ''({ data }) => <p>hi</p>'',
      call = (\<lambda>args.
        if data args ''name'' = Some (JStr ''Ann'') \<and> data args ''role'' = Some (JStr ''guest'')
        then Inr hello
        else Inl (Error ''other data''))\<rparr>"

definition probe_opts :: htmx_route_options where
  "probe_opts =
     (example_opts probe_handler None)
       \<lparr>vals := Some [''name'' \<mapsto> JStr ''Default'', ''role'' \<mapsto> JStr ''guest'']\<rparr>"

section \<open>Objects and attribute names\<close>

lemma fromEntries_map_of: "fromEntries es = map_of (rev es)"
proof -
  have "foldl (\<lambda>m (k, v). m(k \<mapsto> v)) m es = m ++ map_of (rev es)" for m :: "string \<rightharpoonup> 'a"
  proof (induction es arbitrary: m)
    case Nil
    show ?case by simp
  next
    case (Cons e es)
    obtain k v where e: "e = (k, v)" by (cases e)
    have "foldl (\<lambda>m (k, v). m(k \<mapsto> v)) m (e # es) = m(k \<mapsto> v) ++ map_of (rev es)"
      by (simp only: e foldl_Cons prod.case Cons.IH)
    also have "\<dots> = m ++ map_of (rev (e # es))"
      by (rule ext) (simp add: e map_add_def split: option.splits)
    finally show ?case .
  qed
  then show ?thesis by (simp add: fromEntries_def)
qed

lemma convertToHXAttribute_prefix: "take 6 (convertToHXAttribute key) = ''hx-on:''"
  by (simp add: convertToHXAttribute_def)

lemma hxOnHandlers_keys:
  "(k, v) \<in> set (hxOnHandlers opts) \<Longrightarrow> take 6 k = ''hx-on:''"
  by (auto simp: hxOnHandlers_def convertToHXAttribute_prefix split: option.splits)

lemma on_entries_miss:
  assumes "take 6 k \<noteq> ''hx-on:''"
  shows "fromEntries (map (\<lambda>(k, v). (k, JStr v)) (hxOnHandlers opts)) k = None"
proof -
  have "k \<notin> fst ` set (hxOnHandlers opts)"
    using assms hxOnHandlers_keys by fastforce
  then show ?thesis
    by (simp add: fromEntries_map_of map_of_eq_None_iff image_image case_prod_unfold rev_map[symmetric])
qed

lemma hxAttributes_literal:
  assumes "take 6 k \<noteq> ''hx-on:''"
  shows "hxAttributes ev opts meth path k =
     fromEntries
       [(''hx-'' @ toLowerCase meth, JStr path),
        (''hx-target'', JStr (nullish (target opts) ''body'')),
        (''hx-swap'', JStr (nullish (map_option swap_name (swap opts)) ''innerHTML'')),
        (''hx-vals'',
           (case vals opts of None \<Rightarrow> JUndefined | Some v \<Rightarrow> JStr (JSON_stringify ev v)))] k"
  using on_entries_miss [OF assms, of opts]
  by (simp add: hxAttributes_def Let_def map_add_def)

lemma toUpperCase_names:
  "toUpperCase ''GET'' = ''GET''" "toUpperCase ''POST'' = ''POST''" "toUpperCase ''PUT'' = ''PUT''"
  "toUpperCase ''DELETE'' = ''DELETE''" "toUpperCase ''PATCH'' = ''PATCH''"
  by code_simp+

lemma toLowerCase_names:
  "toLowerCase ''GET'' = ''get''" "toLowerCase ''POST'' = ''post''" "toLowerCase ''PUT'' = ''put''"
  "toLowerCase ''DELETE'' = ''delete''" "toLowerCase ''PATCH'' = ''patch''"
  by code_simp+

lemma route_method_cases:
  "route_method_of opts =
     (case method_opt opts of None \<Rightarrow> ''POST'' | Some m \<Rightarrow> method_name m)"
proof (cases "method_opt opts")
  case None
  then show ?thesis by (simp add: route_method_of_def)
next
  case (Some m)
  have "toUpperCase (method_name m) = method_name m"
    by (cases m) (simp_all add: toUpperCase_names)
  with Some show ?thesis by (simp add: route_method_of_def)
qed

lemma hxAttr_cases:
  "''hx-'' @ toLowerCase (route_method_of opts) = trigger_attribute (method_opt opts)"
proof (cases "method_opt opts")
  case None
  then show ?thesis by (simp add: route_method_cases trigger_attribute_def toLowerCase_names)
next
  case (Some m)
  have "''hx-'' @ toLowerCase (method_name m) = trigger_attribute (Some m)"
    by (cases m) (simp_all add: toLowerCase_names trigger_attribute_def)
  with Some show ?thesis by (simp add: route_method_cases)
qed

lemma trigger_not_on: "take 6 (trigger_attribute m) \<noteq> ''hx-on:''"
  by (cases m; simp add: trigger_attribute_def split: http_method.splits)

lemma trigger_neq: "trigger_attribute m \<noteq> ''hx-target''" "trigger_attribute m \<noteq> ''hx-swap''" "trigger_attribute m \<noteq> ''hx-vals''"
  by (cases m; simp add: trigger_attribute_def split: http_method.splits)+

lemma htmx_fst: "fst (htmx ev config opts s) =
    hxAttributes ev opts (route_method_of opts) (route_path config opts)"
  by (simp add: htmx_def Let_def)

lemma htmx_trigger:
  "fst (htmx ev config opts s) (trigger_attribute (method_opt opts)) = Some (JStr (route_path config opts))"
  using trigger_neq [of "method_opt opts"] hxAttr_cases [of opts]
  by (simp add: htmx_fst hxAttributes_literal [OF trigger_not_on] fromEntries_map_of)

section \<open>The attribute record\<close>

text \<open>
  Claim C3. For every call of the router function, the returned attribute record holds
  the trigger attribute of the method (\<open>hx-post\<close> when no method is given) with the
  generated path as its value, \<open>hx-target\<close> with the configured target or \<open>body\<close>,
  and \<open>hx-swap\<close> with the configured swap strategy or \<open>innerHTML\<close>. No event
  handler attribute can take their place, since those names all start with \<open>hx-on:\<close>.
\<close>

theorem C3_attribute_set:
  "fst (htmx ev config opts s) (trigger_attribute (method_opt opts)) = Some (JStr (route_path config opts))
   \<and> fst (htmx ev config opts s) ''hx-target'' = Some (JStr (nullish (target opts) ''body''))
   \<and> fst (htmx ev config opts s) ''hx-swap''
       = Some (JStr (nullish (map_option swap_name (swap opts)) ''innerHTML''))"
proof (intro conjI)
  show "fst (htmx ev config opts s) (trigger_attribute (method_opt opts)) = Some (JStr (route_path config opts))"
    by (rule htmx_trigger)
  show "fst (htmx ev config opts s) ''hx-target'' = Some (JStr (nullish (target opts) ''body''))"
    by (simp add: htmx_fst hxAttributes_literal fromEntries_map_of)
  show "fst (htmx ev config opts s) ''hx-swap''
       = Some (JStr (nullish (map_option swap_name (swap opts)) ''innerHTML''))"
    by (simp add: htmx_fst hxAttributes_literal fromEntries_map_of)
qed

text \<open>
  Claim C8. When \<open>vals\<close> is omitted, the returned record still has the key
  \<open>hx-vals\<close>, and its value is \<open>undefined\<close>, which is not a string.
\<close>

theorem C8_hx_vals_undefined:
  "vals opts = None \<Longrightarrow> fst (htmx ev config opts s) ''hx-vals'' = Some JUndefined"
  by (simp add: htmx_fst hxAttributes_literal fromEntries_map_of)

theorem C8_hx_vals_undefined_witness:
  "vals (example_opts (example_handler ''() => <p>hi</p>'') None) = None
   \<and> fst (htmx example_env example_config
         (example_opts (example_handler ''() => <p>hi</p>'') None)
         (createHTMXRouter example_config)) ''hx-vals'' = Some JUndefined"
proof -
  have v: "vals (example_opts (example_handler ''() => <p>hi</p>'') None) = None"
    by (simp add: example_opts_def)
  from v C8_hx_vals_undefined [OF v] show ?thesis by (rule conjI)
qed

section \<open>Registration\<close>

lemma registry_has_set:
  "registry_has (registry_set reg k v) k' = (k' = k \<or> registry_has reg k')"
  by (induction reg) (auto simp: registry_has_def)

lemma registry_set_new:
  "\<not> registry_has reg k \<Longrightarrow> registry_set reg k v = reg @ [(k, v)]"
  by (induction reg) (auto simp: registry_has_def)

lemma htmx_registered:
  "registry_has (routeRegistry s) (route_path config opts) \<Longrightarrow> snd (htmx ev config opts s) = s"
  by (simp add: htmx_def Let_def)

lemma htmx_new:
  assumes "\<not> registry_has (routeRegistry s) (route_path config opts)"
  shows "routes (snd (htmx ev config opts s)) = routes s @ [generated_route ev config opts]"
    and "routeRegistry (snd (htmx ev config opts s))
           = routeRegistry s @ [(route_path config opts, handler opts)]"
  using assms by (simp_all add: htmx_def Let_def registry_set_new)

lemma htmx_has_after:
  "registry_has (routeRegistry (snd (htmx ev config opts s))) (route_path config opts)"
  by (cases "registry_has (routeRegistry s) (route_path config opts)")
     (simp_all add: htmx_registered htmx_new registry_has_def)

lemma in_step_create: "in_step (createHTMXRouter config)"
  by (simp add: in_step_def createHTMXRouter_def Let_def)

lemma in_step_htmx: "in_step s \<Longrightarrow> in_step (snd (htmx ev config opts s))"
proof (cases "registry_has (routeRegistry s) (route_path config opts)")
  case True
  assume "in_step s"
  with True show ?thesis by (simp add: htmx_registered)
next
  case False
  assume "in_step s"
  then have "route_path config opts \<notin> set (map route_url (routes s))"
    using False by (simp add: in_step_def registry_has_def)
  with \<open>in_step s\<close> show ?thesis
    by (simp add: htmx_new [OF False] in_step_def generated_route_def)
qed

lemma in_step_calls: "in_step s \<Longrightarrow> in_step (htmx_calls ev config calls s)"
  by (induction calls arbitrary: s) (simp_all add: in_step_htmx)

lemma calls_in_step: "in_step (htmx_calls ev config calls (createHTMXRouter config))"
  by (simp add: in_step_calls in_step_create)

lemma count_distinct:
  "distinct (map f xs) \<Longrightarrow> k \<in> set (map f xs) \<Longrightarrow> length (filter (\<lambda>x. f x = k) xs) = 1"
proof (induction xs)
  case Nil
  then show ?case by simp
next
  case (Cons x xs)
  show ?case
  proof (cases "f x = k")
    case True
    with Cons.prems have "filter (\<lambda>y. f y = k) xs = []"
      by (auto simp: filter_empty_conv image_iff)
    with True show ?thesis by simp
  next
    case False
    with Cons show ?thesis by auto
  qed
qed

lemma registered_once:
  "in_step s \<Longrightarrow> registry_has (routeRegistry s) p \<Longrightarrow>
     length (filter (\<lambda>r. route_url r = p) (routes s)) = 1"
  using count_distinct [of route_url "routes s" p]
  by (simp add: in_step_def registry_has_def)

lemma route_path_source:
  "toString (handler o1) = toString (handler o2) \<Longrightarrow> route_path config o1 = route_path config o2"
  by (simp add: route_path_def hashFn_def)

text \<open>
  Claim C1. On a router after any sequence of calls, two further calls with handlers of
  the same source text return the same path in their trigger attributes; the second call
  leaves the routes of the server and the registry as they are, and the server holds
  exactly one route for that path.
\<close>

theorem C1_same_source_registered_once:
  assumes "toString (handler o1) = toString (handler o2)"
  shows "let s0 = htmx_calls ev config calls (createHTMXRouter config);
             (a1, s1) = htmx ev config o1 s0;
             (a2, s2) = htmx ev config o2 s1;
             path = route_path config o1
         in a1 (trigger_attribute (method_opt o1)) = Some (JStr path)
            \<and> a2 (trigger_attribute (method_opt o2)) = Some (JStr path)
            \<and> routes s2 = routes s1
            \<and> routeRegistry s2 = routeRegistry s1
            \<and> length (filter (\<lambda>r. route_url r = path) (routes s2)) = 1"
proof -
  let ?s0 = "htmx_calls ev config calls (createHTMXRouter config)"
  let ?s1 = "snd (htmx ev config o1 ?s0)"
  let ?s2 = "snd (htmx ev config o2 ?s1)"
  have p: "route_path config o2 = route_path config o1"
    using assms by (rule route_path_source [symmetric])
  have has: "registry_has (routeRegistry ?s1) (route_path config o1)"
    by (rule htmx_has_after)
  then have same: "?s2 = ?s1"
    by (simp only: htmx_registered p)
  have "in_step ?s1"
    by (rule in_step_htmx [OF calls_in_step])
  then have once: "length (filter (\<lambda>r. route_url r = route_path config o1) (routes ?s1)) = 1"
    using has by (rule registered_once)
  have a1: "fst (htmx ev config o1 ?s0) (trigger_attribute (method_opt o1))
      = Some (JStr (route_path config o1))"
    by (rule htmx_trigger)
  have a2: "fst (htmx ev config o2 ?s1) (trigger_attribute (method_opt o2))
      = Some (JStr (route_path config o1))"
    using htmx_trigger [of ev config o2 ?s1] by (simp only: p)
  show ?thesis
    unfolding Let_def case_prod_unfold
    by (intro conjI) (simp_all only: a1 a2 same once)
qed

theorem C1_same_source_registered_once_witness:
  "toString (handler (example_opts (example_handler ''() => <p>hi</p>'') (Some POST)))
     = toString (handler (example_opts (example_handler ''() => <p>hi</p>'') (Some GET)))
   \<and> (let s0 = htmx_calls example_env example_config [] (createHTMXRouter example_config);
            (a1, s1) = htmx example_env example_config
              (example_opts (example_handler ''() => <p>hi</p>'') (Some POST)) s0;
            (a2, s2) = htmx example_env example_config
              (example_opts (example_handler ''() => <p>hi</p>'') (Some GET)) s1;
            path = route_path example_config
              (example_opts (example_handler ''() => <p>hi</p>'') (Some POST))
        in a1 (trigger_attribute
                 (method_opt (example_opts (example_handler ''() => <p>hi</p>'') (Some POST))))
             = Some (JStr path)
           \<and> a2 (trigger_attribute
                 (method_opt (example_opts (example_handler ''() => <p>hi</p>'') (Some GET))))
             = Some (JStr path)
           \<and> routes s2 = routes s1
           \<and> routeRegistry s2 = routeRegistry s1
           \<and> length (filter (\<lambda>r. route_url r = path) (routes s2)) = 1)"
proof -
  have h: "toString (handler (example_opts (example_handler ''() => <p>hi</p>'') (Some POST)))
     = toString (handler (example_opts (example_handler ''() => <p>hi</p>'') (Some GET)))"
    by (simp add: example_opts_def)
  from h C1_same_source_registered_once [OF h, of example_env example_config "[]"]
  show ?thesis by (rule conjI)
qed

lemma htmx_routes_step:
  "routes (snd (htmx ev config opts s)) = routes s
   \<or> routes (snd (htmx ev config opts s)) = routes s @ [generated_route ev config opts]"
  by (cases "registry_has (routeRegistry s) (route_path config opts)")
     (simp_all add: htmx_registered htmx_new)

lemma routes_origin:
  "r \<in> set (routes (htmx_calls ev config calls s)) \<Longrightarrow>
     r \<in> set (routes s) \<or> (\<exists>opts\<in>set calls. r = generated_route ev config opts)"
proof (induction calls arbitrary: s)
  case Nil
  then show ?case by simp
next
  case (Cons c calls)
  from Cons.prems
  have "r \<in> set (routes (htmx_calls ev config calls (snd (htmx ev config c s))))"
    by simp
  then have "r \<in> set (routes (snd (htmx ev config c s)))
      \<or> (\<exists>opts\<in>set calls. r = generated_route ev config opts)"
    by (rule Cons.IH)
  moreover have "r \<in> set (routes (snd (htmx ev config c s))) \<Longrightarrow>
      r \<in> set (routes s) \<or> r = generated_route ev config c"
    using htmx_routes_step [of ev config c s] by auto
  ultimately show ?case by auto
qed

lemma routes_generated:
  assumes "r \<in> set (routes (htmx_calls ev config calls (createHTMXRouter config)))"
  shows "\<exists>opts\<in>set calls. r = generated_route ev config opts"
  using routes_origin [OF assms] by (simp add: createHTMXRouter_def Let_def)

lemma first_call_routes:
  "routes (htmx_calls ev config [opts] (createHTMXRouter config)) = [generated_route ev config opts]"
proof -
  have "\<not> registry_has (routeRegistry (createHTMXRouter config)) (route_path config opts)"
    by (simp add: createHTMXRouter_def registry_has_def Let_def)
  from htmx_new(1) [OF this] show ?thesis
    by (simp add: createHTMXRouter_def Let_def)
qed

text \<open>
  Claim C7, as stated, fails for the method: the same handler, so the same content hash,
  is registered under \<open>GET\<close> by one call and under \<open>POST\<close> by another.
\<close>

theorem C7_method_not_from_hash:
  "hashFn (handler (example_opts (example_handler ''() => <p>hi</p>'') (Some GET)))
     = hashFn (handler (example_opts (example_handler ''() => <p>hi</p>'') (Some POST)))
   \<and> map route_method (routes (snd (htmx example_env example_config
         (example_opts (example_handler ''() => <p>hi</p>'') (Some GET))
         (createHTMXRouter example_config)))) = [''GET'']
   \<and> map route_method (routes (snd (htmx example_env example_config
         (example_opts (example_handler ''() => <p>hi</p>'') (Some POST))
         (createHTMXRouter example_config)))) = [''POST'']"
proof -
  have empty: "\<not> registry_has (routeRegistry (createHTMXRouter example_config)) p" for p
    by (simp add: createHTMXRouter_def registry_has_def Let_def)
  have none: "routes (createHTMXRouter example_config) = []"
    by (simp add: createHTMXRouter_def Let_def)
  show ?thesis
    by (simp add: htmx_new(1) [OF empty] none generated_route_def route_method_cases
        example_opts_def)
qed

text \<open>
  Claim C7, amended. Every route of a router comes from one of the calls: its path is the
  prefix, a slash and the content hash of that call's handler, and its method is that
  call's \<open>method\<close> option, \<open>POST\<close> when the option is omitted.
\<close>

theorem C7_path_from_hash_method_from_option:
  assumes "r \<in> set (routes (htmx_calls ev config calls (createHTMXRouter config)))"
  shows "\<exists>opts\<in>set calls.
     route_url r = nullish (prefix config) ''/api'' @ ''/'' @ hashFn (handler opts)
     \<and> route_method r = (case method_opt opts of None \<Rightarrow> ''POST'' | Some m \<Rightarrow> method_name m)"
proof -
  from routes_generated [OF assms]
  obtain opts where "opts \<in> set calls" and r: "r = generated_route ev config opts"
    by blast
  moreover have "route_url r = nullish (prefix config) ''/api'' @ ''/'' @ hashFn (handler opts)"
    by (simp add: r generated_route_def route_path_def)
  moreover have "route_method r
      = (case method_opt opts of None \<Rightarrow> ''POST'' | Some m \<Rightarrow> method_name m)"
    by (simp add: r generated_route_def route_method_cases)
  ultimately show ?thesis by blast
qed

theorem C7_path_from_hash_method_from_option_witness:
  "generated_route example_env example_config (example_opts (example_handler ''() => <p>hi</p>'') (Some GET))
     \<in> set (routes (htmx_calls example_env example_config
           [example_opts (example_handler ''() => <p>hi</p>'') (Some GET)]
           (createHTMXRouter example_config)))
   \<and> route_url (generated_route example_env example_config
         (example_opts (example_handler ''() => <p>hi</p>'') (Some GET)))
       = ''/api/'' @ hashFn (example_handler ''() => <p>hi</p>'')
   \<and> route_method (generated_route example_env example_config
         (example_opts (example_handler ''() => <p>hi</p>'') (Some GET))) = ''GET''"
proof -
  let ?o = "example_opts (example_handler ''() => <p>hi</p>'') (Some GET)"
  let ?r = "generated_route example_env example_config ?o"
  have mem: "?r \<in> set (routes (htmx_calls example_env example_config [?o]
      (createHTMXRouter example_config)))"
    by (subst first_call_routes) simp
  from C7_path_from_hash_method_from_option [OF mem]
  have "route_url ?r = nullish (prefix example_config) ''/api'' @ ''/'' @ hashFn (handler ?o)
     \<and> route_method ?r = (case method_opt ?o of None \<Rightarrow> ''POST'' | Some m \<Rightarrow> method_name m)"
    by simp
  then show ?thesis
    using mem by (simp add: example_opts_def example_config_def nullish_def)
qed

text \<open>
  Claim C9. A call whose path is already in the registry leaves the registry and the
  routes of the server unchanged, and returns the attribute record a new router would
  return for the same options. So after a registration under \<open>POST\<close>, a call with
  the same handler and the method \<open>GET\<close> returns \<open>hx-get\<close> with the path, while
  the only route of the server for that path is a \<open>POST\<close> route.
\<close>

theorem C9_registered_path_frame:
  "(registry_has (routeRegistry s) (route_path config opts) \<longrightarrow>
      routeRegistry (snd (htmx ev config opts s)) = routeRegistry s
      \<and> routes (snd (htmx ev config opts s)) = routes s
      \<and> fst (htmx ev config opts s) = fst (htmx ev config opts (createHTMXRouter config)))
   \<and> (let o1 = example_opts (example_handler ''() => <p>hi</p>'') (Some POST);
           o2 = example_opts (example_handler ''() => <p>hi</p>'') (Some GET);
           s1 = snd (htmx example_env example_config o1 (createHTMXRouter example_config));
           (a2, s2) = htmx example_env example_config o2 s1
       in a2 ''hx-get'' = Some (JStr (route_path example_config o2))
          \<and> map route_url (routes s2) = [route_path example_config o2]
          \<and> map route_method (routes s2) = [''POST''])"
proof (intro conjI impI)
  assume has: "registry_has (routeRegistry s) (route_path config opts)"
  then show "routeRegistry (snd (htmx ev config opts s)) = routeRegistry s"
    by (simp add: htmx_registered)
  from has show "routes (snd (htmx ev config opts s)) = routes s"
    by (simp add: htmx_registered)
  show "fst (htmx ev config opts s) = fst (htmx ev config opts (createHTMXRouter config))"
    by (simp add: htmx_fst)
next
  let ?o1 = "example_opts (example_handler ''() => <p>hi</p>'') (Some POST)"
  let ?o2 = "example_opts (example_handler ''() => <p>hi</p>'') (Some GET)"
  let ?s0 = "createHTMXRouter example_config"
  let ?s1 = "snd (htmx example_env example_config ?o1 ?s0)"
  have p: "route_path example_config ?o1 = route_path example_config ?o2"
    by (simp add: route_path_def example_opts_def)
  have "registry_has (routeRegistry ?s1) (route_path example_config ?o1)"
    by (rule htmx_has_after)
  then have same: "snd (htmx example_env example_config ?o2 ?s1) = ?s1"
    by (simp add: htmx_registered p)
  have r1: "routes ?s1 = [generated_route example_env example_config ?o1]"
    using first_call_routes [of example_env example_config ?o1] by simp
  have get: "fst (htmx example_env example_config ?o2 ?s1) ''hx-get''
      = Some (JStr (route_path example_config ?o2))"
    using htmx_trigger [of example_env example_config ?o2 ?s1]
    by (simp add: trigger_attribute_def example_opts_def)
  have u: "map route_url (routes ?s1) = [route_path example_config ?o2]"
    unfolding r1 by (simp add: generated_route_def p)
  have m: "map route_method (routes ?s1) = [''POST'']"
    unfolding r1 by (simp add: generated_route_def route_method_cases example_opts_def)
  from get u m same
  show "let o1 = ?o1; o2 = ?o2; s1 = snd (htmx example_env example_config o1 ?s0);
            (a2, s2) = htmx example_env example_config o2 s1
        in a2 ''hx-get'' = Some (JStr (route_path example_config o2))
           \<and> map route_url (routes s2) = [route_path example_config o2]
           \<and> map route_method (routes s2) = [''POST'']"
    unfolding Let_def case_prod_unfold by (intro conjI) simp_all
qed

theorem C9_registered_path_frame_witness:
  "registry_has
     (routeRegistry (snd (htmx example_env example_config
        (example_opts (example_handler ''() => <p>hi</p>'') (Some POST))
        (createHTMXRouter example_config))))
     (route_path example_config (example_opts (example_handler ''() => <p>hi</p>'') (Some GET)))
   \<and> routes (snd (htmx example_env example_config
        (example_opts (example_handler ''() => <p>hi</p>'') (Some GET))
        (snd (htmx example_env example_config
           (example_opts (example_handler ''() => <p>hi</p>'') (Some POST))
           (createHTMXRouter example_config)))))
     = routes (snd (htmx example_env example_config
        (example_opts (example_handler ''() => <p>hi</p>'') (Some POST))
        (createHTMXRouter example_config)))"
proof -
  let ?o1 = "example_opts (example_handler ''() => <p>hi</p>'') (Some POST)"
  let ?o2 = "example_opts (example_handler ''() => <p>hi</p>'') (Some GET)"
  let ?s1 = "snd (htmx example_env example_config ?o1 (createHTMXRouter example_config))"
  have p: "route_path example_config ?o2 = route_path example_config ?o1"
    by (simp add: route_path_def example_opts_def)
  have has: "registry_has (routeRegistry ?s1) (route_path example_config ?o2)"
    unfolding p by (rule htmx_has_after)
  from C9_registered_path_frame [of ?s1 example_config ?o2 example_env] has
  have "routes (snd (htmx example_env example_config ?o2 ?s1)) = routes ?s1"
    by blast
  with has show ?thesis by (rule conjI)
qed

section \<open>Handling a request\<close>

lemma merged_data_key:
  "merged_data opts rq k =
     (case nullish (body rq) Map.empty k of
        Some v \<Rightarrow> Some v
      | None \<Rightarrow> nullish (vals opts) Map.empty k)"
  by (simp add: merged_data_def map_add_def)

lemma request_handler_total:
  "\<exists>out. request_handler ev dbg opts meth path rq rs = Inr out"
  by (simp add: request_handler_def Let_def split: sum.splits prod.splits)

lemma try_block_throws:
  assumes "call (handler opts) \<lparr>data = merged_data opts rq, req = rq, res = rs\<rparr> = Inl e
     \<or> (\<exists>jsx. call (handler opts) \<lparr>data = merged_data opts rq, req = rq, res = rs\<rparr> = Inr jsx
          \<and> renderToStaticMarkup ev jsx = Inl e)"
  shows "try_block ev dbg opts rq rs = Inl e"
  using assms by (auto simp: try_block_def Let_def)

lemma request_handler_caught:
  assumes "try_block ev dbg opts rq rs = Inl e"
  shows "\<exists>rs' lines. request_handler ev dbg opts meth path rq rs
       = Inr (rs', lines @ [Console_error [Txt ''[HTMX]'', Txt ''Handler error:'', Thrown e]])
     \<and> status rs' = 500 \<and> payload rs' = Some ''Server error''"
  using assms
  by (simp add: request_handler_def Let_def logError_def send_def set_status_def)

lemma request_handler_rendered:
  assumes "call (handler opts) \<lparr>data = merged_data opts rq, req = rq, res = rs\<rparr> = Inr jsx"
    and "renderToStaticMarkup ev jsx = Inr html"
  shows "\<exists>rs' lines. request_handler ev dbg opts meth path rq rs = Inr (rs', lines)
     \<and> payload rs' = Some html \<and> status rs' = status rs
     \<and> headers rs' = headers rs @ [(''Content-Type'', ''text/html'')]"
  using assms
  by (simp add: request_handler_def try_block_def Let_def send_def header_def)

text \<open>
  Claim C2. Every route of a router comes from one of the calls, and for every request
  its handler calls the route handler of that call on a record whose \<open>data\<close> is the merge
  of the default values and the body of the request: a key of the body has the body's
  value, any other key has the default value. What the route handler does on that record
  decides the reply: when it throws, the reply has status 500 and the error is the last
  line of the console; when it returns an element that renders, the reply carries the
  markup as \<open>text/html\<close>.
\<close>

theorem C2_request_values_win:
  assumes "r \<in> set (routes (htmx_calls ev config calls (createHTMXRouter config)))"
  shows "\<exists>opts\<in>set calls. \<forall>rq rs. \<exists>d.
     (\<forall>k. d k =
        (case nullish (body rq) Map.empty k of
           Some v \<Rightarrow> Some v
         | None \<Rightarrow> nullish (vals opts) Map.empty k))
     \<and> (\<forall>e. call (handler opts) \<lparr>data = d, req = rq, res = rs\<rparr> = Inl e \<longrightarrow>
           (\<exists>rs' lines. route_handler_fn r rq rs
               = Inr (rs', lines @ [Console_error [Txt ''[HTMX]'', Txt ''Handler error:'', Thrown e]])
             \<and> status rs' = 500 \<and> payload rs' = Some ''Server error''))
     \<and> (\<forall>jsx html. call (handler opts) \<lparr>data = d, req = rq, res = rs\<rparr> = Inr jsx
             \<and> renderToStaticMarkup ev jsx = Inr html \<longrightarrow>
           (\<exists>rs' lines. route_handler_fn r rq rs = Inr (rs', lines)
             \<and> payload rs' = Some html \<and> status rs' = status rs
             \<and> headers rs' = headers rs @ [(''Content-Type'', ''text/html'')]))"
proof -
  from routes_generated [OF assms]
  obtain opts where mem: "opts \<in> set calls" and r: "r = generated_route ev config opts"
    by blast
  have fn: "route_handler_fn r = request_handler ev (nullish (debug config) False) opts
      (route_method_of opts) (route_path config opts)"
    by (simp add: r generated_route_def)
  show ?thesis
  proof (rule bexI [OF _ mem], intro allI)
    fix rq rs
    let ?d = "merged_data opts rq"
    have keys: "\<forall>k. ?d k =
        (case nullish (body rq) Map.empty k of
           Some v \<Rightarrow> Some v
         | None \<Rightarrow> nullish (vals opts) Map.empty k)"
      by (simp add: merged_data_key)
    have thrown: "\<forall>e. call (handler opts) \<lparr>data = ?d, req = rq, res = rs\<rparr> = Inl e \<longrightarrow>
           (\<exists>rs' lines. route_handler_fn r rq rs
               = Inr (rs', lines @ [Console_error [Txt ''[HTMX]'', Txt ''Handler error:'', Thrown e]])
             \<and> status rs' = 500 \<and> payload rs' = Some ''Server error'')"
    proof (intro allI impI)
      fix e
      assume "call (handler opts) \<lparr>data = ?d, req = rq, res = rs\<rparr> = Inl e"
      then have "try_block ev (nullish (debug config) False) opts rq rs = Inl e"
        by (intro try_block_throws disjI1)
      then show "\<exists>rs' lines. route_handler_fn r rq rs
               = Inr (rs', lines @ [Console_error [Txt ''[HTMX]'', Txt ''Handler error:'', Thrown e]])
             \<and> status rs' = 500 \<and> payload rs' = Some ''Server error''"
        unfolding fn by (rule request_handler_caught)
    qed
    have rendered: "\<forall>jsx html. call (handler opts) \<lparr>data = ?d, req = rq, res = rs\<rparr> = Inr jsx
             \<and> renderToStaticMarkup ev jsx = Inr html \<longrightarrow>
           (\<exists>rs' lines. route_handler_fn r rq rs = Inr (rs', lines)
             \<and> payload rs' = Some html \<and> status rs' = status rs
             \<and> headers rs' = headers rs @ [(''Content-Type'', ''text/html'')])"
    proof (intro allI impI, elim conjE)
      fix jsx html
      assume "call (handler opts) \<lparr>data = ?d, req = rq, res = rs\<rparr> = Inr jsx"
        and "renderToStaticMarkup ev jsx = Inr html"
      then show "\<exists>rs' lines. route_handler_fn r rq rs = Inr (rs', lines)
             \<and> payload rs' = Some html \<and> status rs' = status rs
             \<and> headers rs' = headers rs @ [(''Content-Type'', ''text/html'')]"
        unfolding fn by (rule request_handler_rendered)
    qed
    from keys thrown rendered
    have merged: "(\<forall>k. ?d k =
        (case nullish (body rq) Map.empty k of
           Some v \<Rightarrow> Some v
         | None \<Rightarrow> nullish (vals opts) Map.empty k))
     \<and> (\<forall>e. call (handler opts) \<lparr>data = ?d, req = rq, res = rs\<rparr> = Inl e \<longrightarrow>
           (\<exists>rs' lines. route_handler_fn r rq rs
               = Inr (rs', lines @ [Console_error [Txt ''[HTMX]'', Txt ''Handler error:'', Thrown e]])
             \<and> status rs' = 500 \<and> payload rs' = Some ''Server error''))
     \<and> (\<forall>jsx html. call (handler opts) \<lparr>data = ?d, req = rq, res = rs\<rparr> = Inr jsx
             \<and> renderToStaticMarkup ev jsx = Inr html \<longrightarrow>
           (\<exists>rs' lines. route_handler_fn r rq rs = Inr (rs', lines)
             \<and> payload rs' = Some html \<and> status rs' = status rs
             \<and> headers rs' = headers rs @ [(''Content-Type'', ''text/html'')]))"
      by (intro conjI)
    show "\<exists>d. (\<forall>k. d k =
        (case nullish (body rq) Map.empty k of
           Some v \<Rightarrow> Some v
         | None \<Rightarrow> nullish (vals opts) Map.empty k))
     \<and> (\<forall>e. call (handler opts) \<lparr>data = d, req = rq, res = rs\<rparr> = Inl e \<longrightarrow>
           (\<exists>rs' lines. route_handler_fn r rq rs
               = Inr (rs', lines @ [Console_error [Txt ''[HTMX]'', Txt ''Handler error:'', Thrown e]])
             \<and> status rs' = 500 \<and> payload rs' = Some ''Server error''))
     \<and> (\<forall>jsx html. call (handler opts) \<lparr>data = d, req = rq, res = rs\<rparr> = Inr jsx
             \<and> renderToStaticMarkup ev jsx = Inr html \<longrightarrow>
           (\<exists>rs' lines. route_handler_fn r rq rs = Inr (rs', lines)
             \<and> payload rs' = Some html \<and> status rs' = status rs
             \<and> headers rs' = headers rs @ [(''Content-Type'', ''text/html'')]))"
      by (rule exI, rule merged)
  qed
qed

text \<open>
  At a router with one call, whose default values give a name and a role, and a request
  whose body gives another name: the probing handler gets the name of the request and
  the role of the default values, so the reply carries its markup.
\<close>

theorem C2_request_values_win_witness:
  "generated_route example_env example_config probe_opts
     \<in> set (routes (htmx_calls example_env example_config [probe_opts]
           (createHTMXRouter example_config)))
   \<and> (\<exists>rs' lines.
        route_handler_fn (generated_route example_env example_config probe_opts)
          example_request new_reply = Inr (rs', lines)
        \<and> payload rs' = Some ''<p>hi</p>'' \<and> status rs' = 200
        \<and> headers rs' = [(''Content-Type'', ''text/html'')])"
proof -
  let ?r = "generated_route example_env example_config probe_opts"
  have mem: "?r \<in> set (routes (htmx_calls example_env example_config [probe_opts]
      (createHTMXRouter example_config)))"
    by (subst first_call_routes) simp
  from C2_request_values_win [OF mem]
  obtain opts where "opts \<in> set [probe_opts]"
    and every: "\<forall>rq rs. \<exists>d.
     (\<forall>k. d k =
        (case nullish (body rq) Map.empty k of
           Some v \<Rightarrow> Some v
         | None \<Rightarrow> nullish (vals opts) Map.empty k))
     \<and> (\<forall>e. call (handler opts) \<lparr>data = d, req = rq, res = rs\<rparr> = Inl e \<longrightarrow>
           (\<exists>rs' lines. route_handler_fn ?r rq rs
               = Inr (rs', lines @ [Console_error [Txt ''[HTMX]'', Txt ''Handler error:'', Thrown e]])
             \<and> status rs' = 500 \<and> payload rs' = Some ''Server error''))
     \<and> (\<forall>jsx html. call (handler opts) \<lparr>data = d, req = rq, res = rs\<rparr> = Inr jsx
             \<and> renderToStaticMarkup example_env jsx = Inr html \<longrightarrow>
           (\<exists>rs' lines. route_handler_fn ?r rq rs = Inr (rs', lines)
             \<and> payload rs' = Some html \<and> status rs' = status rs
             \<and> headers rs' = headers rs @ [(''Content-Type'', ''text/html'')]))"
    ..
  then have opts: "opts = probe_opts"
    by simp
  from every [rule_format, of example_request new_reply]
  obtain d where d: "(\<forall>k. d k =
        (case nullish (body example_request) Map.empty k of
           Some v \<Rightarrow> Some v
         | None \<Rightarrow> nullish (vals opts) Map.empty k))
     \<and> (\<forall>e. call (handler opts) \<lparr>data = d, req = example_request, res = new_reply\<rparr> = Inl e \<longrightarrow>
           (\<exists>rs' lines. route_handler_fn ?r example_request new_reply
               = Inr (rs', lines @ [Console_error [Txt ''[HTMX]'', Txt ''Handler error:'', Thrown e]])
             \<and> status rs' = 500 \<and> payload rs' = Some ''Server error''))
     \<and> (\<forall>jsx html. call (handler opts) \<lparr>data = d, req = example_request, res = new_reply\<rparr>
               = Inr jsx
             \<and> renderToStaticMarkup example_env jsx = Inr html \<longrightarrow>
           (\<exists>rs' lines. route_handler_fn ?r example_request new_reply = Inr (rs', lines)
             \<and> payload rs' = Some html \<and> status rs' = status new_reply
             \<and> headers rs' = headers new_reply @ [(''Content-Type'', ''text/html'')]))"
    ..
  note keys = d [THEN conjunct1, rule_format]
  note rendered = d [THEN conjunct2, THEN conjunct2, rule_format, OF conjI]
  have name: "d ''name'' = Some (JStr ''Ann'')"
    by (subst keys) (simp add: example_request_def nullish_def)
  have role: "d ''role'' = Some (JStr ''guest'')"
    by (subst keys)
      (simp add: opts example_request_def probe_opts_def example_opts_def nullish_def)
  have called: "call (handler opts)
      \<lparr>data = d, req = example_request, res = new_reply\<rparr> = Inr hello"
    by (simp add: opts probe_opts_def example_opts_def probe_handler_def name role)
  have markup: "renderToStaticMarkup example_env hello = Inr ''<p>hi</p>''"
    by (simp add: example_env_def)
  from rendered [OF called markup]
  have "\<exists>rs' lines. route_handler_fn ?r example_request new_reply = Inr (rs', lines)
      \<and> payload rs' = Some ''<p>hi</p>'' \<and> status rs' = 200
      \<and> headers rs' = [(''Content-Type'', ''text/html'')]"
    by (simp add: new_reply_def)
  with mem show ?thesis by (rule conjI)
qed

text \<open>
  Claim C4. The handler of every generated route returns a reply for every request, so no
  exception escapes it; when the call of the route handler or the rendering of its element
  throws, the reply has status 500 and the body \<open>Server error\<close>, and the last line
  written to the console is the error.
\<close>

theorem C4_exceptions_become_500:
  assumes "r \<in> set (routes (htmx_calls ev config calls (createHTMXRouter config)))"
  shows "\<exists>opts\<in>set calls. \<forall>rq rs.
     (\<exists>out. route_handler_fn r rq rs = Inr out)
     \<and> (\<forall>e. (call (handler opts) \<lparr>data = merged_data opts rq, req = rq, res = rs\<rparr> = Inl e
              \<or> (\<exists>jsx. call (handler opts) \<lparr>data = merged_data opts rq, req = rq, res = rs\<rparr>
                     = Inr jsx
                   \<and> renderToStaticMarkup ev jsx = Inl e)) \<longrightarrow>
           (\<exists>rs' lines. route_handler_fn r rq rs
               = Inr (rs', lines @ [Console_error [Txt ''[HTMX]'', Txt ''Handler error:'', Thrown e]])
             \<and> status rs' = 500 \<and> payload rs' = Some ''Server error''))"
proof -
  from routes_generated [OF assms]
  obtain opts where mem: "opts \<in> set calls" and r: "r = generated_route ev config opts"
    by blast
  have fn: "route_handler_fn r = request_handler ev (nullish (debug config) False) opts
      (route_method_of opts) (route_path config opts)"
    by (simp add: r generated_route_def)
  show ?thesis
  proof (rule bexI [OF _ mem], intro allI conjI impI)
    fix rq rs
    show "\<exists>out. route_handler_fn r rq rs = Inr out"
      unfolding fn by (rule request_handler_total)
  next
    fix rq rs e
    assume "call (handler opts) \<lparr>data = merged_data opts rq, req = rq, res = rs\<rparr> = Inl e
        \<or> (\<exists>jsx. call (handler opts) \<lparr>data = merged_data opts rq, req = rq, res = rs\<rparr>
               = Inr jsx
             \<and> renderToStaticMarkup ev jsx = Inl e)"
    then have "try_block ev (nullish (debug config) False) opts rq rs = Inl e"
      by (rule try_block_throws)
    then show "\<exists>rs' lines. route_handler_fn r rq rs
               = Inr (rs', lines @ [Console_error [Txt ''[HTMX]'', Txt ''Handler error:'', Thrown e]])
             \<and> status rs' = 500 \<and> payload rs' = Some ''Server error''"
      unfolding fn by (rule request_handler_caught)
  qed
qed

theorem C4_exceptions_become_500_witness:
  "generated_route example_env example_config (example_opts failing_handler None)
     \<in> set (routes (htmx_calls example_env example_config [example_opts failing_handler None]
           (createHTMXRouter example_config)))
   \<and> (\<exists>rs' lines.
        route_handler_fn
          (generated_route example_env example_config (example_opts failing_handler None))
          example_request new_reply
        = Inr (rs', lines @ [Console_error [Txt ''[HTMX]'', Txt ''Handler error:'',
                                            Thrown (Error ''1'')]])
        \<and> status rs' = 500 \<and> payload rs' = Some ''Server error'')"
proof -
  let ?o = "example_opts failing_handler None"
  let ?r = "generated_route example_env example_config ?o"
  have mem: "?r \<in> set (routes (htmx_calls example_env example_config [?o]
      (createHTMXRouter example_config)))"
    by (subst first_call_routes) simp
  have thrown: "call (handler ?o)
      \<lparr>data = merged_data ?o example_request, req = example_request, res = new_reply\<rparr>
      = Inl (Error ''1'')"
    by (simp add: example_opts_def failing_handler_def)
  from C4_exceptions_become_500 [OF mem] thrown
  have "\<exists>rs' lines.
        route_handler_fn ?r example_request new_reply
        = Inr (rs', lines @ [Console_error [Txt ''[HTMX]'', Txt ''Handler error:'',
                                            Thrown (Error ''1'')]])
        \<and> status rs' = 500 \<and> payload rs' = Some ''Server error''"
    by simp
  with mem show ?thesis by blast
qed

section \<open>Starting the server\<close>

text \<open>
  Claim C5. The server is asked to listen on the configured port, 3000 when none is given,
  and the configured host, \<open>localhost\<close> when none is given. When that fails, the error
  is written to the console and the process exits with code 1; when it succeeds, the server
  listens on that port and host and the process goes on.
\<close>

theorem C5_start:
  "(listen ev (nullish (port config) 3000) (nullish (host config) ''localhost'') = Some err \<longrightarrow>
      exit_code (start ev config s) = Some 1
      \<and> listening (start ev config s) = listening s
      \<and> console (start ev config s)
          = console s @ [Console_error [Txt ''[HTMX]'', Txt ''Error starting server:'', Thrown err]])
   \<and> (listen ev (nullish (port config) 3000) (nullish (host config) ''localhost'') = None \<longrightarrow>
      listening (start ev config s)
        = Some (nullish (port config) 3000, nullish (host config) ''localhost'')
      \<and> exit_code (start ev config s) = exit_code s)"
  by (simp add: start_def Let_def logError_def)

theorem C5_start_witness:
  "exit_code (start example_env (example_config\<lparr>port := Some 80\<rparr>)
       (createHTMXRouter (example_config\<lparr>port := Some 80\<rparr>))) = Some 1
   \<and> console (start example_env (example_config\<lparr>port := Some 80\<rparr>)
       (createHTMXRouter (example_config\<lparr>port := Some 80\<rparr>)))
       = [Console_error [Txt ''[HTMX]'', Txt ''Error starting server:'', Thrown (Error ''EACCES'')]]
   \<and> listening (start example_env example_config (createHTMXRouter example_config))
       = Some (3000, ''localhost'')
   \<and> exit_code (start example_env example_config (createHTMXRouter example_config)) = None"
proof -
  let ?c = "example_config\<lparr>port := Some 80\<rparr>"
  have fail: "listen example_env (nullish (port ?c) 3000) (nullish (host ?c) ''localhost'')
      = Some (Error ''EACCES'')"
    by (simp add: example_env_def example_config_def nullish_def)
  have ok: "listen example_env (nullish (port example_config) 3000)
      (nullish (host example_config) ''localhost'') = None"
    by (simp add: example_env_def example_config_def nullish_def)
  have c0: "console (createHTMXRouter ?c) = []"
    by (simp add: createHTMXRouter_def example_config_def nullish_def log_def Let_def)
  have e0: "exit_code (createHTMXRouter example_config) = None"
    by (simp add: createHTMXRouter_def Let_def)
  from C5_start [of example_env ?c "Error ''EACCES''" "createHTMXRouter ?c"] fail
  have a: "exit_code (start example_env ?c (createHTMXRouter ?c)) = Some 1
      \<and> console (start example_env ?c (createHTMXRouter ?c))
          = console (createHTMXRouter ?c)
            @ [Console_error [Txt ''[HTMX]'', Txt ''Error starting server:'',
                 Thrown (Error ''EACCES'')]]"
    by blast
  from C5_start [of example_env example_config "Error ''x''" "createHTMXRouter example_config"] ok
  have b: "listening (start example_env example_config (createHTMXRouter example_config))
        = Some (nullish (port example_config) 3000, nullish (host example_config) ''localhost'')
      \<and> exit_code (start example_env example_config (createHTMXRouter example_config))
        = exit_code (createHTMXRouter example_config)"
    by blast
  have d: "nullish (port example_config) 3000 = 3000"
    "nullish (host example_config) ''localhost'' = ''localhost''"
    by (simp_all add: example_config_def nullish_def)
  from a b show ?thesis
    unfolding c0 e0 d by simp
qed

section \<open>The content hash\<close>

text \<open>
  The words of SHA-1 are evaluated with every intermediate result cut to 32 bits, which
  changes no value of type \<^typ>\<open>u32\<close>.
\<close>

lemma mask32: "(x::u32) AND 0xFFFFFFFF = x"
proof -
  have "(0xFFFFFFFF::u32) = mask 32" by (simp add: mask_eq_exp_minus_1)
  then have "x AND 0xFFFFFFFF = take_bit 32 x" by (simp add: take_bit_eq_mask)
  moreover have "take_bit 32 x = x" using take_bit_length_eq [of x] by simp
  ultimately show ?thesis by simp
qed

lemma rotl_eval: "rotl n x = (push_bit n x OR drop_bit (32 - n) x) AND 0xFFFFFFFF"
  by (simp only: mask32 rotl_def)

lemma rounds_eval:
  "rounds i (w # ws) (a, b, c, d, e) =
     rounds (Suc i) ws
       ((rotl 5 a + sha1_f i b c d + e + sha1_k i + w) AND 0xFFFFFFFF, a, rotl 30 b, c, d)"
  by (simp only: mask32 rounds.simps)

lemma compress_eval:
  "compress (h0, h1, h2, h3, h4) blk =
     (case rounds 0 (schedule 16 blk) (h0, h1, h2, h3, h4) of (a, b, c, d, e) \<Rightarrow>
        ((h0 + a) AND 0xFFFFFFFF, (h1 + b) AND 0xFFFFFFFF, (h2 + c) AND 0xFFFFFFFF,
         (h3 + d) AND 0xFFFFFFFF, (h4 + e) AND 0xFFFFFFFF))"
  by (simp only: mask32 compress_def prod.case)

lemmas sha1_eval = sha1_hex_def utf8_def utf8_char_def sha1_pad_def zeros.simps be64_def
  compress_eval schedule.simps rotl_eval rounds_eval rounds.simps(1) sha1_f_def sha1_k_def
  sha1_init_def hex32_def hex_digit_def

text \<open>
The test vectors of FIPS 180: one block, and two blocks.
\<close>

lemma sha1_abc: "sha1_hex ''abc'' = ''a9993e364706816aba3e25717850c26c9cd0d89d''"
  by (simp add: sha1_eval del: rounds.simps(2))

lemma sha1_two_blocks:
  "sha1_hex ''abcdbcdecdefdefgefghfghighijhijkijkljklmklmnlmnomnopnopq''
     = ''84983e441c3bd26ebaae4aa1f95129e5e54670f1''"
  by (simp add: sha1_eval del: rounds.simps(2))

lemma sha1_hello: "sha1_hex ''() => <p>hi</p>'' = ''d303155943475b2976710bbb5b97ed7dbd981419''"
  by (simp add: sha1_eval del: rounds.simps(2))

lemma sha1_hello_spaced: "sha1_hex ''() =>  <p>hi</p>'' = ''ea65a998de2139832a3df4b95a83c4ca10434bd8''"
  by (simp add: sha1_eval del: rounds.simps(2))

lemma hashFn_hello: "hashFn (example_handler ''() => <p>hi</p>'') = ''d303155943''"
  by (simp add: hashFn_def example_handler_def sha1_hello)

lemma hashFn_hello_spaced: "hashFn (example_handler ''() =>  <p>hi</p>'') = ''ea65a998de''"
  by (simp add: hashFn_def example_handler_def sha1_hello_spaced)

text \<open>
  Claim C6. Handlers of equal source text get equal paths; the path is the prefix, a slash
  and the first 10 hexadecimal digits of the SHA-1 digest of the source text; and two
  handlers that do the same on every call, written with one space more in one of them,
  get different paths.
\<close>

theorem C6_path_is_hash_of_source:
  "(toString (handler o1) = toString (handler o2) \<longrightarrow>
      route_path config o1 = route_path config o2)
   \<and> route_path config o1
       = nullish (prefix config) ''/api'' @ ''/'' @ take 10 (sha1_hex (toString (handler o1)))
   \<and> call (example_handler ''() => <p>hi</p>'') = call (example_handler ''() =>  <p>hi</p>'')
   \<and> toString (example_handler ''() => <p>hi</p>'')
       \<noteq> toString (example_handler ''() =>  <p>hi</p>'')
   \<and> route_path config (example_opts (example_handler ''() => <p>hi</p>'') m)
       \<noteq> route_path config (example_opts (example_handler ''() =>  <p>hi</p>'') m)"
proof (intro conjI impI)
  assume "toString (handler o1) = toString (handler o2)"
  then show "route_path config o1 = route_path config o2"
    by (simp add: route_path_def hashFn_def)
next
  show "route_path config o1
       = nullish (prefix config) ''/api'' @ ''/'' @ take 10 (sha1_hex (toString (handler o1)))"
    by (simp add: route_path_def hashFn_def)
next
  show "call (example_handler ''() => <p>hi</p>'') = call (example_handler ''() =>  <p>hi</p>'')"
    by (simp add: example_handler_def)
next
  show "toString (example_handler ''() => <p>hi</p>'')
       \<noteq> toString (example_handler ''() =>  <p>hi</p>'')"
    by (simp add: example_handler_def)
next
  show "route_path config (example_opts (example_handler ''() => <p>hi</p>'') m)
       \<noteq> route_path config (example_opts (example_handler ''() =>  <p>hi</p>'') m)"
    by (simp add: route_path_def example_opts_def hashFn_hello hashFn_hello_spaced)
qed

theorem C6_path_is_hash_of_source_witness:
  "toString (handler (example_opts (example_handler ''() => <p>hi</p>'') (Some GET)))
     = toString (handler (example_opts (example_handler ''() => <p>hi</p>'') (Some POST)))
   \<and> route_path example_config (example_opts (example_handler ''() => <p>hi</p>'') (Some GET))
     = route_path example_config (example_opts (example_handler ''() => <p>hi</p>'') (Some POST))
   \<and> route_path example_config (example_opts (example_handler ''() => <p>hi</p>'') (Some GET))
     = ''/api/d303155943''"
proof -
  let ?a = "example_opts (example_handler ''() => <p>hi</p>'') (Some GET)"
  let ?b = "example_opts (example_handler ''() => <p>hi</p>'') (Some POST)"
  have h: "toString (handler ?a) = toString (handler ?b)"
    by (simp add: example_opts_def)
  note t = C6_path_is_hash_of_source [of ?a ?b example_config]
  from t h have eq: "route_path example_config ?a = route_path example_config ?b"
    by blast
  from t have "route_path example_config ?a
      = nullish (prefix example_config) ''/api'' @ ''/''
        @ take 10 (sha1_hex (toString (handler ?a)))"
    by blast
  then have v: "route_path example_config ?a = ''/api/d303155943''"
    by (simp add: example_config_def nullish_def example_opts_def example_handler_def sha1_hello)
  from h eq v show ?thesis by blast
qed

section \<open>Event handler attributes\<close>

lemma convertToHXAttribute_events:
  "convertToHXAttribute ''onClick'' = ''hx-on:click''"
  "convertToHXAttribute ''onChange'' = ''hx-on:change''"
  "convertToHXAttribute ''onSubmit'' = ''hx-on:submit''"
  "convertToHXAttribute ''onMouseEnter'' = ''hx-on:mouseenter''"
  "convertToHXAttribute ''onMouseLeave'' = ''hx-on:mouseleave''"
  "convertToHXAttribute ''onInput'' = ''hx-on:input''"
  "convertToHXAttribute ''onFocus'' = ''hx-on:focus''"
  "convertToHXAttribute ''onBlur'' = ''hx-on:blur''"
  "convertToHXAttribute ''onKeyDown'' = ''hx-on:keydown''"
  "convertToHXAttribute ''onKeyUp'' = ''hx-on:keyup''"
  "convertToHXAttribute ''onMouseDown'' = ''hx-on:mousedown''"
  "convertToHXAttribute ''onMouseUp'' = ''hx-on:mouseup''"
  "convertToHXAttribute ''onBeforeRequest'' = ''hx-on::before-request''"
  "convertToHXAttribute ''onAfterRequest'' = ''hx-on::after-request''"
  by code_simp+

lemma convertToHXAttribute_other:
  "key \<noteq> ''onBeforeRequest'' \<Longrightarrow> key \<noteq> ''onAfterRequest'' \<Longrightarrow>
     convertToHXAttribute key = ''hx-on:'' @ toLowerCase (drop 2 key)"
  by (simp add: convertToHXAttribute_def toLowerCase_def drop_map)

lemma handlerString_arrow_block:
  "handlerString ''(event) => { alert(1); }'' = ''alert(1);''"
  by code_simp

lemma handlerString_function_block:
  "handlerString ''function (event) { alert(1); }'' = ''alert(1);''"
  by code_simp

lemma handlerString_nested_arrow:
  "handlerString ''function (e) { setTimeout(() => { alert(1) }, 10) }'' = ''alert(1) }, 10)''"
  by code_simp

lemma startsWith_onClick: "startsWith ''onClick'' ''on''"
  by (simp add: startsWith_def)

text \<open>
  Claim C10. The attribute names are as the claim says, and a handler whose body is a
  plain block gives its body. For \<open>onClick\<close> with the source text
  \<^verbatim>\<open>function (e) { setTimeout(() => { alert(1) }, 10) }\<close> the value is not the body
  \<^verbatim>\<open>setTimeout(() => { alert(1) }, 10)\<close>: after the function wrapper is removed, the
  second pattern matches the start of the body up to the brace of the inner arrow
  function and removes that too.
\<close>

theorem C10_nested_arrow_overstripped:
  "fst (htmx ev config
        ((example_opts h m)
           \<lparr>props := [(''onClick'', Some ''function (e) { setTimeout(() => { alert(1) }, 10) }'')]\<rparr>)
        s) ''hx-on:click''
   = Some (JStr ''alert(1) }, 10)'')"
  by (simp add: htmx_fst hxAttributes_def hxOnHandlers_def Let_def example_opts_def
      startsWith_onClick convertToHXAttribute_events handlerString_nested_arrow
      fromEntries_map_of map_add_def)

end
